theory Spec2Isabelle
  imports Main "HOL-Library.Word" "HOL-Library.Sublist"
begin

section \<open>JavaScript strings\<close>

text \<open>
  A JavaScript string is a sequence of UTF-16 code units. The regular expressions of the
  sources carry no \<open>u\<close> flag, so \<open>match\<close>, \<open>replace\<close> and \<open>trim\<close> all work on code
  units. \<open>lit\<close> turns an ASCII literal of the source into such a sequence.
\<close>

type_synonym js_string = "16 word list"

definition lit :: "string \<Rightarrow> js_string" where
  "lit s = map of_char s"

text \<open>
  The class \<open>\s\<close> of a regular expression and the characters removed by
  \<open>String.prototype.trim\<close> are the same set: WhiteSpace and LineTerminator of ECMAScript.
\<close>

definition is_js_space :: "16 word \<Rightarrow> bool" where
  "is_js_space c \<longleftrightarrow>
     c = 0x09 \<or> c = 0x0A \<or> c = 0x0B \<or> c = 0x0C \<or> c = 0x0D \<or> c = 0x20 \<or> c = 0xA0 \<or>
     c = 0x1680 \<or> (0x2000 \<le> c \<and> c \<le> 0x200A) \<or> c = 0x2028 \<or> c = 0x2029 \<or>
     c = 0x202F \<or> c = 0x205F \<or> c = 0x3000 \<or> c = 0xFEFF"

section \<open>Regular expressions\<close>

text \<open>
  The fragment of regular expressions that the sources use: literal code units, the class
  \<open>\s\<close>, sequence, alternative and repetition. \<open>lang\<close> is the set of strings an
  expression matches as a whole.
\<close>

datatype rx = Zero | Eps | Chr "16 word" | Ws | Alt rx rx | Seq rx rx | Star rx

definition Plus :: "rx \<Rightarrow> rx" where
  "Plus r = Seq r (Star r)"

definition Opt :: "rx \<Rightarrow> rx" where
  "Opt r = Alt r Eps"

fun Str :: "js_string \<Rightarrow> rx" where
  "Str [] = Eps"
| "Str (c # cs) = Seq (Chr c) (Str cs)"

definition conc :: "js_string set \<Rightarrow> js_string set \<Rightarrow> js_string set" where
  "conc A B = {u @ v | u v. u \<in> A \<and> v \<in> B}"

inductive_set star :: "js_string set \<Rightarrow> js_string set" for A :: "js_string set" where
  star_nil: "[] \<in> star A"
| star_app: "u \<in> A \<Longrightarrow> v \<in> star A \<Longrightarrow> u @ v \<in> star A"

fun lang :: "rx \<Rightarrow> js_string set" where
  "lang Zero = {}"
| "lang Eps = {[]}"
| "lang (Chr c) = {[c]}"
| "lang Ws = {[c] | c. is_js_space c}"
| "lang (Alt r s) = lang r \<union> lang s"
| "lang (Seq r s) = conc (lang r) (lang s)"
| "lang (Star r) = star (lang r)"

text \<open>
  The executable matcher works by derivatives: \<open>deriv c r\<close> matches what \<open>r\<close> matches
  after a leading \<open>c\<close>.
\<close>

fun nullable :: "rx \<Rightarrow> bool" where
  "nullable Zero = False"
| "nullable Eps = True"
| "nullable (Chr c) = False"
| "nullable Ws = False"
| "nullable (Alt r s) = (nullable r \<or> nullable s)"
| "nullable (Seq r s) = (nullable r \<and> nullable s)"
| "nullable (Star r) = True"

fun deriv :: "16 word \<Rightarrow> rx \<Rightarrow> rx" where
  "deriv c Zero = Zero"
| "deriv c Eps = Zero"
| "deriv c (Chr d) = (if c = d then Eps else Zero)"
| "deriv c Ws = (if is_js_space c then Eps else Zero)"
| "deriv c (Alt r s) = Alt (deriv c r) (deriv c s)"
| "deriv c (Seq r s) =
     (if nullable r then Alt (Seq (deriv c r) s) (deriv c s) else Seq (deriv c r) s)"
| "deriv c (Star r) = Seq (deriv c r) (Star r)"

fun accepts :: "rx \<Rightarrow> js_string \<Rightarrow> bool" where
  "accepts r [] = nullable r"
| "accepts r (c # cs) = accepts (deriv c r) cs"

text \<open>\<open>match_here r s\<close>: some prefix of \<open>s\<close> is matched by \<open>r\<close>.\<close>

fun match_here :: "rx \<Rightarrow> js_string \<Rightarrow> bool" where
  "match_here r [] = nullable r"
| "match_here r (c # cs) = (nullable r \<or> match_here (deriv c r) cs)"

text \<open>
  \<open>re_search r s\<close>: the truth value of \<open>s.match(r)\<close> for an expression without the
  global flag. The engine tries every start index from the left and succeeds when the
  expression matches at one of them.
\<close>

fun re_search :: "rx \<Rightarrow> js_string \<Rightarrow> bool" where
  "re_search r [] = match_here r []"
| "re_search r (c # cs) = (match_here r (c # cs) \<or> re_search r cs)"

section \<open>The preview document: the Source Normalizer\<close>

text \<open>
  From \<open>run\<close> in the module script of the preview document (PreviewWindow.tsx):
  \<^verbatim>\<open>if (!codeToCompile.match(/import\s+(\*\s+as\s+)?React/)) {
     codeToCompile = "import React from 'react';\n" + codeToCompile;
  }\<close>
\<close>

definition react_import_rx :: rx where
  "react_import_rx =
     Seq (Str (lit ''import''))
       (Seq (Plus Ws)
         (Seq (Opt (Seq (Chr 0x2A) (Seq (Plus Ws) (Seq (Str (lit ''as'')) (Plus Ws)))))
           (Str (lit ''React''))))"

definition canonical_import :: js_string where
  "canonical_import = lit ''import React from 'react';\<newline>''"

definition normalize :: "js_string \<Rightarrow> js_string" where
  "normalize userCode =
     (if \<not> re_search react_import_rx userCode then canonical_import @ userCode
      else userCode)"

section \<open>The preview document: one preview cycle\<close>

text \<open>
  What a \<open>catch (err)\<close> can receive. JavaScript throws any value: an object with a
  \<open>message\<close> string (every \<open>Error\<close>, so every failure of the transpiler, of the module
  loader and of \<open>throw new Error(...)\<close>), \<open>null\<close> or \<open>undefined\<close> (a module that runs
  \<open>throw null\<close>), or a value on which \<open>message\<close> is \<open>undefined\<close> (a thrown string or number).
\<close>

datatype js_value = Error_obj js_string | Nullish | Messageless

text \<open>
  \<open>${err.message}\<close> in the template of the handler: the message; a \<open>TypeError\<close> when the
  property is read from \<open>null\<close> or \<open>undefined\<close> (\<open>None\<close>); the text \<open>undefined\<close> when the
  property is missing.
\<close>

fun message_text :: "js_value \<Rightarrow> js_string option" where
  "message_text (Error_obj message) = Some message"
| "message_text Nullish = None"
| "message_text Messageless = Some (lit ''undefined'')"

text \<open>
  \<open>module.default\<close> of a loaded module: \<open>undefined\<close> when the module has no default export,
  a falsy value (\<open>export default 0\<close>), or a truthy value, which is taken as the component.
\<close>

datatype 'c default_export = No_default | Falsy_default | Component 'c

text \<open>
  The libraries the document loads, as far as \<open>run\<close> calls them:
  \<open>Babel.transform\<close> throws or gives the compiled code; \<open>import(url)\<close> of the blob with
  that code rejects or gives the module, of which \<open>run\<close> reads \<open>default\<close> only;
  \<open>createRoot(...)\<close> with \<open>root.render(...)\<close> may throw while it is called. What the
  previewed code does to its document on its own, while it is evaluated or rendered, is
  not part of the model.
\<close>

record 'c runtime =
  babel_transform :: "js_string \<Rightarrow> js_value + js_string"
  import_module :: "js_string \<Rightarrow> js_value + 'c default_export"
  root_render :: "'c \<Rightarrow> js_value option"

text \<open>
  The body of the document: the mount point \<open><div id="root">\<close> of the template with
  the component rendered into it, if any, or the markup assigned to
  \<open>document.body.innerHTML\<close>.
\<close>

datatype 'c body = Root_div "'c option" | Inner_html js_string

text \<open>
  The state of one preview document. \<open>object_urls\<close> counts the object URLs of \<open>run\<close>
  that are live: \<open>URL.createObjectURL\<close> adds one; the source never calls
  \<open>URL.revokeObjectURL\<close>.
  \<open>mount_attempts\<close> counts the calls of \<open>createRoot\<close>.
\<close>

record 'c document =
  body :: "'c body"
  object_urls :: nat
  mount_attempts :: nat
  console_errors :: "js_value list"

definition fresh_document :: "'c document" where
  "fresh_document =
     \<lparr>body = Root_div None, object_urls = 0, mount_attempts = 0, console_errors = []\<rparr>"

text \<open>How the promise of \<open>run()\<close> ends; nothing handles its rejection.\<close>

datatype completion = Fulfilled | Rejected_TypeError

text \<open>
  A document whose \<open>run\<close> waits at \<open>await import(url)\<close> for the module compiled to the
  given code, or whose \<open>run\<close> is over.
\<close>

datatype 'c frame = Awaiting "'c document" js_string | Settled "'c document" completion

fun document_of :: "'c frame \<Rightarrow> 'c document" where
  "document_of (Awaiting doc compiled) = doc"
| "document_of (Settled doc c) = doc"

definition missing_default_export :: js_string where
  "missing_default_export =
     lit ''The generated code does not have a default export. Please ensure the component is exported as default.''"

definition error_panel :: "js_string \<Rightarrow> js_string" where
  \<open>error_panel message =
     lit ''\<newline>''
     @ lit ''                  <div style="padding: 20px; color: #000; font-family: sans-serif; background: #FF6B6B; height: 100vh; border: 4px solid black;">\<newline>''
     @ lit ''                    <h1 style="font-weight: 900; text-transform: uppercase;">Preview Error</h1>\<newline>''
     @ lit ''                    <pre style="white-space: pre-wrap; background: white; border: 2px solid black; padding: 10px;">''
     @ message
     @ lit ''</pre>\<newline>''
     @ lit ''                    <br/>\<newline>''
     @ lit ''                    <em>Check the console for more details.</em>\<newline>''
     @ lit ''                  </div>\<newline>''
     @ lit ''                ''\<close>

text \<open>
  The \<open>catch\<close> block of \<open>run\<close>: \<open>console.error\<close>, then the assignment to
  \<open>document.body.innerHTML\<close>, which is not reached when building the markup throws.
\<close>

definition catch_handler :: "js_value \<Rightarrow> 'c document \<Rightarrow> 'c frame" where
  "catch_handler err doc =
     (let doc1 = doc\<lparr>console_errors := console_errors doc @ [err]\<rparr> in
      case message_text err of
        None \<Rightarrow> Settled doc1 Rejected_TypeError
      | Some message \<Rightarrow> Settled (doc1\<lparr>body := Inner_html (error_panel message)\<rparr>) Fulfilled)"

text \<open>\<open>run\<close> up to \<open>await import(url)\<close>: normalize, transpile, blob and object URL.\<close>

definition run_start :: "'c runtime \<Rightarrow> js_string \<Rightarrow> 'c document \<Rightarrow> 'c frame" where
  "run_start rt userCode doc =
     (let codeToCompile = normalize userCode in
      case babel_transform rt codeToCompile of
        Inl err \<Rightarrow> catch_handler err doc
      | Inr compiled \<Rightarrow> Awaiting (doc\<lparr>object_urls := object_urls doc + 1\<rparr>) compiled)"

text \<open>\<open>run\<close> from the outcome of the import on: default export, mount.\<close>

definition run_resume ::
  "'c runtime \<Rightarrow> 'c document \<Rightarrow> js_value + 'c default_export \<Rightarrow> 'c frame" where
  "run_resume rt doc outcome =
     (case outcome of
        Inl err \<Rightarrow> catch_handler err doc
      | Inr (Component App) \<Rightarrow>
          (let doc1 = doc\<lparr>mount_attempts := mount_attempts doc + 1\<rparr> in
           case root_render rt App of
             Some err \<Rightarrow> catch_handler err doc1
           | None \<Rightarrow> Settled (doc1\<lparr>body := Root_div (Some App)\<rparr>) Fulfilled)
      | Inr _ \<Rightarrow> catch_handler (Error_obj missing_default_export) doc)"

definition settle :: "'c runtime \<Rightarrow> 'c frame \<Rightarrow> 'c frame" where
  "settle rt f =
     (case f of
        Awaiting doc compiled \<Rightarrow> run_resume rt doc (import_module rt compiled)
      | Settled doc c \<Rightarrow> Settled doc c)"

text \<open>One whole preview cycle, when the import settles.\<close>

definition run :: "'c runtime \<Rightarrow> js_string \<Rightarrow> 'c document \<Rightarrow> 'c frame" where
  "run rt userCode doc = settle rt (run_start rt userCode doc)"

text \<open>The states of a cycle that the specification names, read off a frame.\<close>

datatype cycle_state = Loading | Rendered | Failed | Unreported

fun cycle_state_of :: "'c frame \<Rightarrow> cycle_state" where
  "cycle_state_of (Awaiting doc compiled) = Loading"
| "cycle_state_of (Settled doc c) =
     (case body doc of
        Inner_html markup \<Rightarrow> Failed
      | Root_div (Some App) \<Rightarrow> Rendered
      | Root_div None \<Rightarrow> Unreported)"

section \<open>The host: the PreviewWindow component\<close>

text \<open>
  The \<open>sandbox\<close> attribute of the \<open>iframe\<close>. A browser splits it on white space; scripts
  run in the frame when the token \<open>allow-scripts\<close> is there, and the frame is put into an
  origin of its own unless the token \<open>allow-same-origin\<close> is there. (A browser compares
  the tokens without regard to case; the attribute of the source is in lower case.)
\<close>

definition iframe_sandbox :: string where
  "iframe_sandbox = ''allow-scripts allow-same-origin''"

definition is_ascii_space :: "char \<Rightarrow> bool" where
  "is_ascii_space c \<longleftrightarrow>
     c = CHR 0x09 \<or> c = CHR 0x0A \<or> c = CHR 0x0C \<or> c = CHR 0x0D \<or> c = CHR '' ''"

function tokens :: "string \<Rightarrow> string list" where
  "tokens [] = []"
| "tokens (c # cs) =
     (if is_ascii_space c then tokens cs
      else (c # takeWhile (\<lambda>x. \<not> is_ascii_space x) cs)
             # tokens (dropWhile (\<lambda>x. \<not> is_ascii_space x) cs))"
  by pat_completeness auto
termination
  by (relation "measure length") (auto simp: length_dropWhile_le less_Suc_eq_le)

definition scripting_enabled :: "string \<Rightarrow> bool" where
  "scripting_enabled sandbox \<longleftrightarrow> ''allow-scripts'' \<in> set (tokens sandbox)"

definition same_origin_denied :: "string \<Rightarrow> bool" where
  "same_origin_denied sandbox \<longleftrightarrow> ''allow-same-origin'' \<notin> set (tokens sandbox)"

text \<open>
  The component keeps the state \<open>srcDoc\<close>, and React keeps the dependencies \<open>[code]\<close> of
  the last run of its effect. The markup that the effect builds is the fixed template
  with \<open>JSON.stringify(code)\<close> in one place, so it is the same markup exactly when the
  code is the same; the model keeps the code in place of the markup (\<open>None\<close> is the
  initial \<open>''\<close>). \<open>frames\<close> are the documents that the \<open>iframe\<close> has loaded, oldest first:
  it shows the last one, and a change of its \<open>srcDoc\<close> attribute loads a new one from
  the template, whose module script calls \<open>run()\<close>.
\<close>

record 'c preview_window =
  srcDoc :: "js_string option"
  effect_deps :: "js_string option"
  frames :: "'c frame list"

definition blank_document :: "'c document" where
  "blank_document =
     \<lparr>body = Inner_html [], object_urls = 0, mount_attempts = 0, console_errors = []\<rparr>"

text \<open>A PreviewWindow that has been rendered for the first time, before its effect.\<close>

definition new_preview :: "'c preview_window" where
  "new_preview = \<lparr>srcDoc = None, effect_deps = None, frames = [Settled blank_document Fulfilled]\<rparr>"

text \<open>\<open>setSrcDoc(html)\<close>: a state equal to the old one changes nothing.\<close>

definition setSrcDoc :: "'c runtime \<Rightarrow> js_string \<Rightarrow> 'c preview_window \<Rightarrow> 'c preview_window" where
  "setSrcDoc rt code pw =
     (if srcDoc pw = Some code then pw
      else pw\<lparr>srcDoc := Some code, frames := frames pw @ [run_start rt code fresh_document]\<rparr>)"

text \<open>
  A render of the component with the prop \<open>code\<close>: \<open>useEffect(..., [code])\<close> runs its
  effect on the first render and whenever \<open>code\<close> differs from the last dependencies.
\<close>

definition render_preview ::
  "'c runtime \<Rightarrow> js_string \<Rightarrow> 'c preview_window \<Rightarrow> 'c preview_window" where
  "render_preview rt code pw =
     (if effect_deps pw = Some code then pw
      else setSrcDoc rt code (pw\<lparr>effect_deps := Some code\<rparr>))"

text \<open>
  What happens to a mounted PreviewWindow: the host renders it with a code, or the import
  of the document with the given number settles, whether that document is still shown or
  not.
\<close>

datatype event = Submit js_string | Import_settles nat

fun step :: "'c runtime \<Rightarrow> 'c preview_window \<Rightarrow> event \<Rightarrow> 'c preview_window" where
  "step rt pw (Submit code) = render_preview rt code pw"
| "step rt pw (Import_settles n) =
     (if n < length (frames pw) then pw\<lparr>frames := (frames pw)[n := settle rt (frames pw ! n)]\<rparr>
      else pw)"

definition run_events :: "'c runtime \<Rightarrow> event list \<Rightarrow> 'c preview_window \<Rightarrow> 'c preview_window" where
  "run_events rt evs pw = foldl (step rt) pw evs"

definition displayed :: "'c preview_window \<Rightarrow> 'c frame" where
  "displayed pw = last (frames pw)"

text \<open>
  A runtime for the examples: the transpiler returns its input, every module exports
  its own text as the component, and mounting never throws.
\<close>

definition example_runtime :: "js_string runtime" where
  "example_runtime =
     \<lparr>babel_transform = Inr, import_module = (\<lambda>compiled. Inr (Component compiled)),
      root_render = (\<lambda>App. None)\<rparr>"

section \<open>The generation service: cleaning the model's response\<close>

text \<open>
  \<open>text.replace(/p/g, '')\<close> for a literal pattern \<open>p\<close>: scanning from the left, every
  occurrence of \<open>p\<close> is dropped and the scan goes on behind it; any other code unit is kept.
\<close>

function remove_all :: "js_string \<Rightarrow> js_string \<Rightarrow> js_string" where
  "remove_all p [] = []"
| "remove_all p (c # cs) =
     (if p \<noteq> [] \<and> prefix p (c # cs) then remove_all p (drop (length p) (c # cs))
      else c # remove_all p cs)"
  by pat_completeness auto
termination
  by (relation "measure (\<lambda>(p, s). length s)") auto

text \<open>\<open>String.prototype.trim\<close>: white space is removed from both ends.\<close>

definition js_trim :: "js_string \<Rightarrow> js_string" where
  "js_trim s = rev (dropWhile is_js_space (rev (dropWhile is_js_space s)))"

text \<open>
  \<open>response.text || ""\<close>: the text of the response may be missing (\<open>undefined\<close>), and the
  empty string is the only string that is falsy; both give the empty string.
\<close>

definition text_or_empty :: "js_string option \<Rightarrow> js_string" where
  "text_or_empty t = (case t of None \<Rightarrow> [] | Some s \<Rightarrow> if s = [] then [] else s)"

text \<open>
  \<^verbatim>\<open>text.replace(/```tsx/g, '').replace(/```javascript/g, '').replace(/```/g, '').trim()\<close>
\<close>

definition cleanCode :: "js_string \<Rightarrow> js_string" where
  "cleanCode text =
     js_trim (remove_all (lit ''```'')
       (remove_all (lit ''```javascript'') (remove_all (lit ''```tsx'') text)))"

record GenerationResult =
  code :: js_string
  explanation :: "js_string option"

text \<open>
  Both service functions wrap the whole request in one \<open>try\<close>: whatever the request
  throws (\<open>Inl\<close>) is replaced by a fixed error; a response (\<open>Inr\<close>, with its optional text)
  gives the cleaned code. The request itself is a call to the model service and is taken
  as its outcome.
\<close>

definition generateCodeFromImage :: "'e + js_string option \<Rightarrow> js_string + GenerationResult" where
  "generateCodeFromImage response =
     (case response of
        Inl error \<Rightarrow> Inl (lit ''Failed to generate code from the wireframe. Please try again.'')
      | Inr text \<Rightarrow> Inr \<lparr>code = cleanCode (text_or_empty text), explanation = None\<rparr>)"

definition refineCode :: "'e + js_string option \<Rightarrow> js_string + GenerationResult" where
  "refineCode response =
     (case response of
        Inl error \<Rightarrow> Inl (lit ''Failed to refine the code. Please try again.'')
      | Inr text \<Rightarrow> Inr \<lparr>code = cleanCode (text_or_empty text), explanation = None\<rparr>)"

section \<open>The application: refinement\<close>

datatype AppStatus = IDLE | ANALYZING | GENERATING | COMPLETED | ERROR

record app_state =
  status :: AppStatus
  generatedCode :: js_string
  uploadedImage :: "js_string option"
  refinementPrompt :: js_string
  isFullscreen :: bool

text \<open>
  \<open>handleRefine\<close> runs in two parts, before and after \<open>await refineCode(...)\<close>.
  \<open>handleRefine_begin\<close> is the part before: \<open>None\<close> is the early return on a blank prompt;
  otherwise the status is set and the request is made with the code and the prompt of the
  render that created the handler. \<open>handleRefine_settle\<close> is the part after: each setter
  changes its own field of whatever the state is by then. The second component of its
  result is the text of the \<open>alert\<close>, if any. (The source also stores the old status in
  \<open>previousStatus\<close> and never reads it.)
\<close>

definition handleRefine_begin :: "app_state \<Rightarrow> (app_state \<times> js_string \<times> js_string) option" where
  "handleRefine_begin st =
     (if js_trim (refinementPrompt st) = [] then None
      else Some (st\<lparr>status := GENERATING\<rparr>, generatedCode st, refinementPrompt st))"

definition handleRefine_settle ::
  "js_string + GenerationResult \<Rightarrow> app_state \<Rightarrow> app_state \<times> js_string option" where
  "handleRefine_settle outcome st =
     (case outcome of
        Inr result \<Rightarrow>
          (st\<lparr>generatedCode := code result, refinementPrompt := [], status := COMPLETED\<rparr>, None)
      | Inl error \<Rightarrow>
          (st\<lparr>status := COMPLETED\<rparr>, Some (lit ''Failed to update code. Please try again.'')))"

text \<open>The whole handler when nothing else touches the state while the request is out.\<close>

definition handleRefine ::
  "(js_string \<Rightarrow> js_string \<Rightarrow> js_string + GenerationResult) \<Rightarrow> app_state \<Rightarrow>
     app_state \<times> js_string option" where
  "handleRefine refine st =
     (case handleRefine_begin st of
        None \<Rightarrow> (st, None)
      | Some (st1, currentCode, instruction) \<Rightarrow>
          handleRefine_settle (refine currentCode instruction) st1)"

section \<open>Facts about the matcher\<close>

lemma conc_nil_iff: "[] \<in> conc A B \<longleftrightarrow> [] \<in> A \<and> [] \<in> B"
  by (auto simp: conc_def)

lemma nullable_lang: "nullable r \<longleftrightarrow> [] \<in> lang r"
  by (induction r) (auto simp: conc_nil_iff intro: star.star_nil)

lemma conc_cons_iff:
  "c # w \<in> conc A B \<longleftrightarrow>
     ([] \<in> A \<and> c # w \<in> B) \<or> (\<exists>u v. w = u @ v \<and> c # u \<in> A \<and> v \<in> B)"
proof
  assume "c # w \<in> conc A B"
  then obtain x y where xy: "c # w = x @ y" "x \<in> A" "y \<in> B"
    by (auto simp: conc_def)
  show "([] \<in> A \<and> c # w \<in> B) \<or> (\<exists>u v. w = u @ v \<and> c # u \<in> A \<and> v \<in> B)"
  proof (cases x)
    case Nil
    with xy show ?thesis by simp
  next
    case (Cons a x')
    with xy have "w = x' @ y" "c # x' \<in> A" by simp_all
    with xy(3) show ?thesis by blast
  qed
next
  assume "([] \<in> A \<and> c # w \<in> B) \<or> (\<exists>u v. w = u @ v \<and> c # u \<in> A \<and> v \<in> B)"
  then show "c # w \<in> conc A B"
  proof
    assume "[] \<in> A \<and> c # w \<in> B"
    then have "[] @ (c # w) \<in> conc A B" unfolding conc_def by blast
    then show ?thesis by simp
  next
    assume "\<exists>u v. w = u @ v \<and> c # u \<in> A \<and> v \<in> B"
    then obtain u v where "w = u @ v" "c # u \<in> A" "v \<in> B" by blast
    then have "(c # u) @ v \<in> conc A B" unfolding conc_def by blast
    with \<open>w = u @ v\<close> show ?thesis by simp
  qed
qed

lemma star_cons_iff:
  "c # w \<in> star A \<longleftrightarrow> (\<exists>u v. w = u @ v \<and> c # u \<in> A \<and> v \<in> star A)"
proof
  assume "c # w \<in> star A"
  then show "\<exists>u v. w = u @ v \<and> c # u \<in> A \<and> v \<in> star A"
  proof (induction "c # w" rule: star.induct)
    case (star_app u v)
    show ?case
    proof (cases u)
      case Nil
      with star_app show ?thesis by simp
    next
      case (Cons a u')
      with star_app(1,2,4) show ?thesis by auto
    qed
  qed
next
  assume "\<exists>u v. w = u @ v \<and> c # u \<in> A \<and> v \<in> star A"
  then obtain u v where uv: "w = u @ v" "c # u \<in> A" "v \<in> star A" by blast
  then have "(c # u) @ v \<in> star A" by (intro star.star_app)
  with uv(1) show "c # w \<in> star A" by simp
qed

lemma deriv_lang: "w \<in> lang (deriv c r) \<longleftrightarrow> c # w \<in> lang r"
proof (induction r arbitrary: w)
  case (Seq r s)
  then show ?case
    by (auto simp: conc_cons_iff nullable_lang) (auto simp: conc_def)
next
  case (Star r)
  then show ?case
    by (auto simp: star_cons_iff) (auto simp: conc_def)
qed auto

lemma accepts_lang: "accepts r w \<longleftrightarrow> w \<in> lang r"
  by (induction w arbitrary: r) (simp_all add: nullable_lang deriv_lang)

lemma match_here_lang: "match_here r s \<longleftrightarrow> (\<exists>p q. s = p @ q \<and> p \<in> lang r)"
proof (induction s arbitrary: r)
  case Nil
  then show ?case by (simp add: nullable_lang)
next
  case (Cons c cs)
  show ?case
  proof
    assume "match_here r (c # cs)"
    then consider "nullable r" | "match_here (deriv c r) cs" by auto
    then show "\<exists>p q. c # cs = p @ q \<and> p \<in> lang r"
    proof cases
      case 1
      then have "c # cs = [] @ (c # cs) \<and> [] \<in> lang r" by (simp add: nullable_lang)
      then show ?thesis by blast
    next
      case 2
      then obtain p q where "cs = p @ q" "p \<in> lang (deriv c r)"
        using Cons.IH by blast
      then have "c # cs = (c # p) @ q \<and> c # p \<in> lang r" by (simp add: deriv_lang)
      then show ?thesis by blast
    qed
  next
    assume "\<exists>p q. c # cs = p @ q \<and> p \<in> lang r"
    then obtain p q where pq: "c # cs = p @ q" "p \<in> lang r" by blast
    show "match_here r (c # cs)"
    proof (cases p)
      case Nil
      with pq have "nullable r" by (simp add: nullable_lang)
      then show ?thesis by simp
    next
      case (Cons a p')
      with pq have "cs = p' @ q" "p' \<in> lang (deriv c r)" by (simp_all add: deriv_lang)
      then have "match_here (deriv c r) cs" using Cons.IH by blast
      then show ?thesis by simp
    qed
  qed
qed

lemma re_search_lang: "re_search r s \<longleftrightarrow> (\<exists>a m b. s = a @ m @ b \<and> m \<in> lang r)"
proof (induction s)
  case Nil
  then show ?case by (simp add: nullable_lang)
next
  case (Cons c cs)
  show ?case
  proof
    assume "re_search r (c # cs)"
    then consider "match_here r (c # cs)" | "re_search r cs" by auto
    then show "\<exists>a m b. c # cs = a @ m @ b \<and> m \<in> lang r"
    proof cases
      case 1
      then obtain p q where "c # cs = p @ q" "p \<in> lang r"
        unfolding match_here_lang by blast
      then have "c # cs = [] @ p @ q \<and> p \<in> lang r" by simp
      then show ?thesis by blast
    next
      case 2
      then obtain a m b where "cs = a @ m @ b" "m \<in> lang r" using Cons.IH by blast
      then have "c # cs = (c # a) @ m @ b \<and> m \<in> lang r" by simp
      then show ?thesis by blast
    qed
  next
    assume "\<exists>a m b. c # cs = a @ m @ b \<and> m \<in> lang r"
    then obtain a m b where amb: "c # cs = a @ m @ b" "m \<in> lang r" by blast
    show "re_search r (c # cs)"
    proof (cases a)
      case Nil
      with amb have "match_here r (c # cs)" unfolding match_here_lang by auto
      then show ?thesis by simp
    next
      case (Cons x a')
      with amb have "cs = a' @ m @ b" by simp
      with amb(2) have "re_search r cs" using Cons.IH by blast
      then show ?thesis by simp
    qed
  qed
qed

section \<open>The Source Normalizer\<close>

lemmas rx_eval = lit_def react_import_rx_def Plus_def Opt_def is_js_space_def canonical_import_def







text \<open>
  C8. The detection of the runtime import is a search for the pattern in the text and
  nothing more: whenever some part \<open>m\<close> of the input matches the pattern, whatever stands
  before and behind it (a comment, a string literal, the rest of a longer identifier
  such as \<open>ReactDOM\<close>), the input is returned as it is; and the import is prepended
  exactly when no part of the input matches the pattern.
\<close>

theorem import_detection_is_substring_test:
  "(m \<in> lang react_import_rx \<longrightarrow> normalize (a @ m @ b) = a @ m @ b) \<and>
   (normalize s = canonical_import @ s \<longleftrightarrow>
      \<not> (\<exists>a m b. s = a @ m @ b \<and> m \<in> lang react_import_rx))"
proof -
  have "canonical_import @ s \<noteq> s"
    by (simp add: canonical_import_def lit_def)
  then show ?thesis
    by (auto simp: normalize_def re_search_lang)
qed

theorem import_detection_is_substring_test_witness:
  \<open>lit ''import React'' \<in> lang react_import_rx \<and>
   normalize (lit ''// '' @ lit ''import React'' @ lit '' is not needed\<newline>export default 1'') =
     lit ''// '' @ lit ''import React'' @ lit '' is not needed\<newline>export default 1'' \<and>
   normalize (lit ''const s = "'' @ lit ''import React'' @ lit ''";'') =
     lit ''const s = "'' @ lit ''import React'' @ lit ''";'' \<and>
   normalize ([] @ lit ''import React'' @ lit ''DOM from 'react-dom';'') =
     [] @ lit ''import React'' @ lit ''DOM from 'react-dom';''\<close>
proof -
  have m: "lit ''import React'' \<in> lang react_import_rx"
    unfolding accepts_lang [symmetric] by (simp add: rx_eval)
  then show ?thesis
    using import_detection_is_substring_test [of "lit ''import React''"]
    by blast
qed

section \<open>Cleaning the model's response\<close>

lemma remove_triple_Cons:
  "remove_all [b, b, b] (c # cs) =
     (if c = b \<and> prefix [b, b] cs then remove_all [b, b, b] (drop 2 cs)
      else c # remove_all [b, b, b] cs)"
  by (auto simp: numeral_2_eq_2)

lemma remove_triple_prefix1:
  "prefix [b] (remove_all [b, b, b] s) \<Longrightarrow> prefix [b] s"
  by (cases s) (auto simp del: remove_all.simps(2) simp: remove_triple_Cons split: if_splits)

lemma remove_triple_prefix2:
  assumes "prefix [b, b] (remove_all [b, b, b] s)"
  shows "prefix [b, b] s"
proof (cases s)
  case Nil
  with assms show ?thesis by simp
next
  case (Cons c cs)
  show ?thesis
  proof (cases "c = b \<and> prefix [b, b] cs")
    case True
    with Cons show ?thesis by (auto simp: prefix_def)
  next
    case False
    with assms Cons have "prefix [b, b] (c # remove_all [b, b, b] cs)"
      by (auto simp add: remove_triple_Cons simp del: remove_all.simps(2))
    then have "c = b" "prefix [b] (remove_all [b, b, b] cs)" by auto
    with Cons show ?thesis using remove_triple_prefix1 [of b cs] by auto
  qed
qed

lemma remove_triple_complete: "\<not> sublist [b, b, b] (remove_all [b, b, b] s)"
proof (induction s rule: length_induct)
  case (1 s)
  show ?case
  proof (cases s)
    case Nil
    then show ?thesis by simp
  next
    case (Cons c cs)
    show ?thesis
    proof (cases "c = b \<and> prefix [b, b] cs")
      case True
      have "length (drop 2 cs) < length s" using Cons by simp
      with 1 have "\<not> sublist [b, b, b] (remove_all [b, b, b] (drop 2 cs))" by blast
      with True Cons show ?thesis
        by (auto simp add: remove_triple_Cons simp del: remove_all.simps(2))
    next
      case False
      have "\<not> prefix [b, b, b] (c # remove_all [b, b, b] cs)"
      proof
        assume "prefix [b, b, b] (c # remove_all [b, b, b] cs)"
        then have "c = b" "prefix [b, b] (remove_all [b, b, b] cs)" by auto
        then have "c = b \<and> prefix [b, b] cs" using remove_triple_prefix2 [of b cs] by auto
        with False show False by blast
      qed
      moreover have "\<not> sublist [b, b, b] (remove_all [b, b, b] cs)"
        using 1 Cons by simp
      ultimately have "\<not> sublist [b, b, b] (c # remove_all [b, b, b] cs)"
        by (simp only: sublist_Cons_right) blast
      with False Cons show ?thesis
        by (auto simp add: remove_triple_Cons simp del: remove_all.simps(2))
    qed
  qed
qed

lemma rev_dropWhile_rev_split:
  "xs = rev (dropWhile P (rev xs)) @ rev (takeWhile P (rev xs))"
  by (metis rev_append rev_rev_ident takeWhile_dropWhile_id)

lemma js_trim_split: "\<exists>a b. s = a @ js_trim s @ b"
proof -
  let ?xs = "dropWhile is_js_space s"
  have xs: "?xs = js_trim s @ rev (takeWhile is_js_space (rev ?xs))"
    unfolding js_trim_def by (rule rev_dropWhile_rev_split)
  have "s = takeWhile is_js_space s @ ?xs" by simp
  with xs have "s = takeWhile is_js_space s @ js_trim s @ rev (takeWhile is_js_space (rev ?xs))"
    by simp
  then show ?thesis by blast
qed

lemma js_trim_sublist: "sublist (js_trim s) s"
  using js_trim_split [of s] unfolding sublist_def by blast

lemma js_trim_no_trailing_space:
  assumes "js_trim s = cs @ [c]"
  shows "\<not> is_js_space c"
proof -
  let ?ys = "dropWhile is_js_space (rev (dropWhile is_js_space s))"
  from assms have "rev ?ys = cs @ [c]" by (simp add: js_trim_def)
  then have "rev (rev ?ys) = rev (cs @ [c])" by (rule arg_cong)
  then have "?ys = c # rev cs" by simp
  then show ?thesis by (simp add: dropWhile_eq_Cons_conv)
qed

lemma js_trim_no_leading_space:
  assumes "js_trim s = c # cs"
  shows "\<not> is_js_space c"
proof -
  let ?xs = "dropWhile is_js_space s"
  have "?xs = js_trim s @ rev (takeWhile is_js_space (rev ?xs))"
    unfolding js_trim_def by (rule rev_dropWhile_rev_split)
  with assms have "?xs = c # (cs @ rev (takeWhile is_js_space (rev ?xs)))" by simp
  then show ?thesis by (simp add: dropWhile_eq_Cons_conv)
qed

lemma cleanCode_no_fence: "\<not> sublist (lit ''```'') (cleanCode text)"
proof
  assume "sublist (lit ''```'') (cleanCode text)"
  moreover have "sublist (cleanCode text)
      (remove_all (lit ''```'') (remove_all (lit ''```javascript'') (remove_all (lit ''```tsx'') text)))"
    unfolding cleanCode_def by (rule js_trim_sublist)
  ultimately have "sublist (lit ''```'')
      (remove_all (lit ''```'') (remove_all (lit ''```javascript'') (remove_all (lit ''```tsx'') text)))"
    by (rule sublist_order.order.trans)
  moreover have "lit ''```'' = [0x60, 0x60, 0x60]" by (simp add: lit_def)
  ultimately show False using remove_triple_complete by metis
qed

lemma cleanCode_empty: "cleanCode [] = []"
  by (simp add: cleanCode_def js_trim_def)

lemma cleanCode_example:
  "cleanCode (lit ''```tsx\<newline>export default 1\<newline>```\<newline>'') = lit ''export default 1''"
  by (simp add: cleanCode_def js_trim_def lit_def is_js_space_def)

text \<open>
  C9. Whatever text the model returns, \<open>generateCodeFromImage\<close> and \<open>refineCode\<close> return
  the same code for it, and this code contains no fence marker (three backticks), starts
  with no white space and ends with no white space. When the text is missing or empty,
  the code is the empty string.
\<close>

theorem cleaned_code_has_no_fence:
  "\<exists>r. generateCodeFromImage (Inr t) = Inr r \<and> refineCode (Inr t) = Inr r \<and>
     \<not> sublist (lit ''```'') (code r) \<and>
     \<not> (\<exists>c cs. code r = c # cs \<and> is_js_space c) \<and>
     \<not> (\<exists>c cs. code r = cs @ [c] \<and> is_js_space c) \<and>
     (t = None \<or> t = Some [] \<longrightarrow> code r = [])"
proof -
  let ?r = "\<lparr>code = cleanCode (text_or_empty t), explanation = None\<rparr>"
  have "generateCodeFromImage (Inr t) = Inr ?r" "refineCode (Inr t) = Inr ?r"
    by (simp_all add: generateCodeFromImage_def refineCode_def)
  moreover have "\<not> sublist (lit ''```'') (code ?r)"
    by (simp add: cleanCode_no_fence)
  moreover have "\<not> (\<exists>c cs. code ?r = c # cs \<and> is_js_space c)"
    using js_trim_no_leading_space by (auto simp: cleanCode_def)
  moreover have "\<not> (\<exists>c cs. code ?r = cs @ [c] \<and> is_js_space c)"
    using js_trim_no_trailing_space by (auto simp: cleanCode_def)
  moreover have "t = None \<or> t = Some [] \<longrightarrow> code ?r = []"
    by (auto simp: text_or_empty_def cleanCode_empty)
  ultimately show ?thesis by blast
qed

theorem cleaned_code_has_no_fence_witness:
  "generateCodeFromImage (Inr (Some [])) = Inr \<lparr>code = [], explanation = None\<rparr> \<and>
   refineCode (Inr None) = Inr \<lparr>code = [], explanation = None\<rparr> \<and>
   refineCode (Inr (Some (lit ''```tsx\<newline>export default 1\<newline>```\<newline>''))) =
     Inr \<lparr>code = lit ''export default 1'', explanation = None\<rparr> \<and>
   \<not> sublist (lit ''```'') (lit ''export default 1'')"
proof -
  have "refineCode (Inr (Some (lit ''```tsx\<newline>export default 1\<newline>```\<newline>''))) =
     Inr \<lparr>code = lit ''export default 1'', explanation = None\<rparr>"
    by (simp add: refineCode_def text_or_empty_def cleanCode_example)
  then show ?thesis
    using cleaned_code_has_no_fence [of "Some []"] cleaned_code_has_no_fence [of None]
      cleaned_code_has_no_fence [of "Some (lit ''```tsx\<newline>export default 1\<newline>```\<newline>'')"]
    by (auto simp: generateCodeFromImage_def refineCode_def)
qed

section \<open>Refinement\<close>

text \<open>
  C10. When the prompt is not blank and \<open>refineCode\<close> rejects, \<open>handleRefine\<close> changes
  nothing of the state but the status, which ends as \<open>COMPLETED\<close>: the generated code and
  the prompt are as before. The part of the handler that runs after the rejection does
  so on whatever the state is at that time (\<open>now\<close>).
\<close>

theorem failed_refinement_keeps_state:
  "js_trim (refinementPrompt st) \<noteq> [] \<and> refine (generatedCode st) (refinementPrompt st) = Inl e \<longrightarrow>
     fst (handleRefine refine st) = st\<lparr>status := COMPLETED\<rparr> \<and>
     generatedCode (fst (handleRefine refine st)) = generatedCode st \<and>
     refinementPrompt (fst (handleRefine refine st)) = refinementPrompt st \<and>
     status (fst (handleRefine refine st)) = COMPLETED \<and>
     fst (handleRefine_settle (Inl e) now) = now\<lparr>status := COMPLETED\<rparr>"
  by (simp add: handleRefine_def handleRefine_begin_def handleRefine_settle_def)

theorem failed_refinement_keeps_state_witness:
  "js_trim (lit ''add a button'') \<noteq> [] \<and>
   refineCode (Inl ()) = Inl (lit ''Failed to refine the code. Please try again.'') \<and>
   fst (handleRefine (\<lambda>currentCode instruction. refineCode (Inl ()))
     \<lparr>status = COMPLETED, generatedCode = lit ''export default 1'', uploadedImage = None,
      refinementPrompt = lit ''add a button'', isFullscreen = False\<rparr>) =
     \<lparr>status = COMPLETED, generatedCode = lit ''export default 1'', uploadedImage = None,
      refinementPrompt = lit ''add a button'', isFullscreen = False\<rparr>"
proof -
  have a: "js_trim (lit ''add a button'') \<noteq> []"
    by (simp add: js_trim_def lit_def is_js_space_def)
  have b: "refineCode (Inl ()) = Inl (lit ''Failed to refine the code. Please try again.'')"
    by (simp add: refineCode_def)
  from a b show ?thesis
    using failed_refinement_keeps_state
      [of "\<lparr>status = COMPLETED, generatedCode = lit ''export default 1'', uploadedImage = None,
            refinementPrompt = lit ''add a button'', isFullscreen = False\<rparr>"
          "\<lambda>currentCode instruction. refineCode (Inl ())"
          "lit ''Failed to refine the code. Please try again.''"]
    by simp
qed

section \<open>One preview cycle\<close>

text \<open>
  The model of a cycle starts where the module script calls \<open>run()\<close> with the constant
  \<open>userCode\<close> in place, and ends when the promise of \<open>run()\<close> is settled.
\<close>

lemmas cycle_eval = run_def run_start_def settle_def run_resume_def catch_handler_def
  fresh_document_def example_runtime_def normalize_def rx_eval

lemma message_in_error_panel: "sublist m (error_panel m)"
  unfolding error_panel_def sublist_def by (metis append.assoc)

lemma default_export_phrase: "sublist (lit ''default export'') missing_default_export"
proof -
  have "missing_default_export =
      lit ''The generated code does not have a '' @ lit ''default export'' @
      lit ''. Please ensure the component is exported as default.''"
    by (simp add: missing_default_export_def lit_def)
  then show ?thesis unfolding sublist_def by blast
qed

lemma settle_Settled [simp]: "settle rt (Settled doc c) = Settled doc c"
  by (simp add: settle_def)

lemma catch_handler_settled: "\<exists>doc' c. catch_handler err doc = Settled doc' c"
  by (cases err) (simp_all add: catch_handler_def)

lemma run_resume_settled: "\<exists>doc' c. run_resume rt doc outcome = Settled doc' c"
  using catch_handler_settled
  by (auto simp: run_resume_def Let_def split: sum.splits default_export.splits option.splits)

lemma settle_settled: "\<exists>doc c. settle rt f = Settled doc c"
  using run_resume_settled by (cases f) (auto simp: settle_def)

lemma settle_idem [simp]: "settle rt (settle rt f) = settle rt f"
  using settle_settled [of rt f] by auto

lemma run_settled: "\<exists>doc' c. run rt userCode doc = Settled doc' c"
  unfolding run_def by (rule settle_settled)

lemma object_urls_catch_handler [simp]:
  "object_urls (document_of (catch_handler err doc)) = object_urls doc"
  by (cases err) (simp_all add: catch_handler_def)

lemma mount_attempts_catch_handler [simp]:
  "mount_attempts (document_of (catch_handler err doc)) = mount_attempts doc"
  by (cases err) (simp_all add: catch_handler_def)

lemma object_urls_run_resume [simp]:
  "object_urls (document_of (run_resume rt doc outcome)) = object_urls doc"
  by (auto simp: run_resume_def Let_def split: sum.splits default_export.splits option.splits)

lemma object_urls_settle [simp]:
  "object_urls (document_of (settle rt f)) = object_urls (document_of f)"
  by (cases f) (simp_all add: settle_def)

lemma object_urls_run_start:
  "object_urls (document_of (run_start rt userCode doc)) =
     object_urls doc + (case babel_transform rt (normalize userCode) of Inl err \<Rightarrow> 0 | Inr compiled \<Rightarrow> 1)"
  by (simp add: run_start_def split: sum.splits)

lemma object_urls_run:
  "object_urls (document_of (run rt userCode doc)) =
     object_urls doc + (case babel_transform rt (normalize userCode) of Inl err \<Rightarrow> 0 | Inr compiled \<Rightarrow> 1)"
  by (simp add: run_def object_urls_run_start)

text \<open>
  C4. When the source transpiles and the loaded module has no default export, the cycle
  ends in \<open>Failed\<close>: the body of the document is the error panel with the message of
  the contract failure in it, this message contains the phrase \<open>default export\<close>, and
  \<open>createRoot\<close> has not been called.
\<close>

theorem missing_default_export_is_reported:
  "babel_transform rt (normalize userCode) = Inr compiled \<and>
   import_module rt compiled = Inr No_default \<longrightarrow>
     run rt userCode doc =
       Settled (doc\<lparr>object_urls := object_urls doc + 1,
                    console_errors := console_errors doc @ [Error_obj missing_default_export],
                    body := Inner_html (error_panel missing_default_export)\<rparr>) Fulfilled \<and>
     cycle_state_of (run rt userCode doc) = Failed \<and>
     sublist missing_default_export (error_panel missing_default_export) \<and>
     sublist (lit ''default export'') missing_default_export \<and>
     mount_attempts (document_of (run rt userCode doc)) = mount_attempts doc"
  by (simp add: run_def run_start_def settle_def run_resume_def catch_handler_def
      message_in_error_panel default_export_phrase)

theorem missing_default_export_is_reported_witness:
  "babel_transform (example_runtime\<lparr>import_module := (\<lambda>compiled. Inr No_default)\<rparr>)
     (normalize (lit ''function App(){ return null; }'')) =
     Inr (normalize (lit ''function App(){ return null; }'')) \<and>
   cycle_state_of
     (run (example_runtime\<lparr>import_module := (\<lambda>compiled. Inr No_default)\<rparr>)
        (lit ''function App(){ return null; }'') fresh_document) = Failed \<and>
   body (document_of
     (run (example_runtime\<lparr>import_module := (\<lambda>compiled. Inr No_default)\<rparr>)
        (lit ''function App(){ return null; }'') fresh_document)) =
     Inner_html (error_panel missing_default_export) \<and>
   mount_attempts (document_of
     (run (example_runtime\<lparr>import_module := (\<lambda>compiled. Inr No_default)\<rparr>)
        (lit ''function App(){ return null; }'') fresh_document)) = 0"
  using missing_default_export_is_reported
    [of "example_runtime\<lparr>import_module := (\<lambda>compiled. Inr No_default)\<rparr>"
        "lit ''function App(){ return null; }''"
        "normalize (lit ''function App(){ return null; }'')" fresh_document]
  by (simp add: example_runtime_def fresh_document_def)

text \<open>
  A failure of any stage that carries a message (an \<open>Error\<close>) ends the cycle in \<open>Failed\<close>
  with the error panel, and the panel holds the message as it is.
\<close>

lemma failure_with_message_is_reported:
  "babel_transform rt (normalize userCode) = Inl (Error_obj m) \<or>
   babel_transform rt (normalize userCode) = Inr compiled \<and>
     (import_module rt compiled = Inl (Error_obj m) \<or>
      import_module rt compiled = Inr (Component App) \<and> root_render rt App = Some (Error_obj m)) \<Longrightarrow>
   cycle_state_of (run rt userCode doc) = Failed \<and>
   body (document_of (run rt userCode doc)) = Inner_html (error_panel m) \<and>
   sublist m (error_panel m)"
  by (auto simp: run_def run_start_def settle_def run_resume_def catch_handler_def
      message_in_error_panel)


text \<open>
  C3. Not every failure raised in the guarded region becomes a report. When the import
  rejects with \<open>null\<close> (a module whose evaluation runs \<open>throw null\<close>), the handler logs the
  value, then fails with a \<open>TypeError\<close> while it builds the markup, since it reads
  \<open>message\<close> of \<open>null\<close>: the body stays as it was, no diagnostic is rendered, and the
  promise of \<open>run()\<close> is rejected with nothing to handle it. When the import rejects with a
  value that has no \<open>message\<close> (a thrown string), the panel shows the text \<open>undefined\<close>
  in place of what was thrown.
\<close>

theorem null_rejection_is_not_reported:
  "run (example_runtime\<lparr>import_module := (\<lambda>compiled. Inl Nullish)\<rparr>)
     (lit ''throw null;'') fresh_document =
     Settled \<lparr>body = Root_div None, object_urls = 1, mount_attempts = 0,
       console_errors = [Nullish]\<rparr> Rejected_TypeError \<and>
   cycle_state_of (run (example_runtime\<lparr>import_module := (\<lambda>compiled. Inl Nullish)\<rparr>)
     (lit ''throw null;'') fresh_document) = Unreported \<and>
   body (document_of (run (example_runtime\<lparr>import_module := (\<lambda>compiled. Inl Messageless)\<rparr>)
     (lit ''throw 'boom';'') fresh_document)) = Inner_html (error_panel (lit ''undefined''))"
  by (simp add: run_def run_start_def settle_def run_resume_def catch_handler_def
      fresh_document_def example_runtime_def)

section \<open>The PreviewWindow\<close>

lemmas host_eval = run_events_def render_preview_def setSrcDoc_def new_preview_def
  displayed_def blank_document_def

text \<open>
  C1. The \<open>sandbox\<close> attribute of the \<open>iframe\<close> holds the two tokens \<open>allow-scripts\<close> and
  \<open>allow-same-origin\<close>: the frame runs scripts, and it is not put into an origin of its
  own, so the attribute does not deny the previewed code the resources of the host's
  origin.
\<close>

theorem sandbox_allows_same_origin:
  "tokens iframe_sandbox = [''allow-scripts'', ''allow-same-origin''] \<and>
   scripting_enabled iframe_sandbox \<and> \<not> same_origin_denied iframe_sandbox"
  by (simp add: scripting_enabled_def same_origin_denied_def iframe_sandbox_def is_ascii_space_def)

text \<open>The frame is not a scripting-enabled, same-origin-denied one.\<close>

theorem sandbox_not_same_origin_denied:
  "\<not> (scripting_enabled iframe_sandbox \<and> same_origin_denied iframe_sandbox)"
  by (simp add: scripting_enabled_def same_origin_denied_def iframe_sandbox_def is_ascii_space_def)

lemma run_events_snoc: "run_events rt (evs @ [e]) pw = step rt (run_events rt evs pw) e"
  by (simp add: run_events_def)


lemma settle_run [simp]: "settle rt (run rt src doc) = run rt src doc"
  by (simp add: run_def)







lemma step_keeps_object_urls:
  assumes "\<forall>f \<in> set (frames pw). object_urls (document_of f) \<le> 1"
  shows "\<forall>f \<in> set (frames (step rt pw e)). object_urls (document_of f) \<le> 1"
proof (cases e)
  case (Submit src)
  have "object_urls (document_of (run_start rt src fresh_document)) \<le> 1"
    by (simp add: object_urls_run_start fresh_document_def split: sum.splits)
  with assms Submit show ?thesis
    by (auto simp: render_preview_def setSrcDoc_def)
next
  case (Import_settles n)
  show ?thesis
  proof (cases "n < length (frames pw)")
    case False
    with assms Import_settles show ?thesis by simp
  next
    case True
    then have "object_urls (document_of (settle rt (frames pw ! n))) \<le> 1"
      using assms by simp
    with assms True Import_settles show ?thesis
      by (auto dest!: set_update_subset_insert [THEN subsetD])
  qed
qed

lemma reachable_object_urls:
  "\<forall>f \<in> set (frames (run_events rt evs new_preview)). object_urls (document_of f) \<le> 1"
proof (induction evs rule: rev_induct)
  case Nil
  show ?case by (simp add: run_events_def new_preview_def blank_document_def)
next
  case (snoc e evs)
  then show ?case unfolding run_events_snoc by (rule step_keeps_object_urls)
qed

text \<open>
  C2. No cycle releases its locator. A cycle ends with one live object URL more in its
  document when the transpiler succeeded, and with as many as before when it failed.
  Every cycle runs in a document of its own, so no document the \<open>iframe\<close> has loaded,
  and so not the one on display, ever holds more than one live object URL, however many
  cycles have run.
\<close>

theorem locators_are_never_released:
  "object_urls (document_of (run rt userCode doc)) =
     object_urls doc +
       (case babel_transform rt (normalize userCode) of Inl err \<Rightarrow> 0 | Inr compiled \<Rightarrow> 1) \<and>
   (f \<in> set (frames (run_events rt evs new_preview)) \<longrightarrow> object_urls (document_of f) \<le> 1)"
  using reachable_object_urls [of rt evs] by (simp add: object_urls_run)

theorem locators_are_never_released_witness:
  "object_urls (document_of (run example_runtime (lit ''A'') fresh_document)) = 1 \<and>
   run example_runtime (lit ''B'') fresh_document
     \<in> set (frames (run_events example_runtime
          [Submit (lit ''A''), Import_settles 1, Submit (lit ''B''), Import_settles 2] new_preview)) \<and>
   object_urls (document_of (run example_runtime (lit ''B'') fresh_document)) \<le> 1"
proof -
  have a: "run example_runtime (lit ''B'') fresh_document
     \<in> set (frames (run_events example_runtime
          [Submit (lit ''A''), Import_settles 1, Submit (lit ''B''), Import_settles 2] new_preview))"
    by (simp add: host_eval cycle_eval)
  have b: "object_urls (document_of (run example_runtime (lit ''A'') fresh_document)) = 1"
    using locators_are_never_released [of example_runtime "lit ''A''" fresh_document]
    by (simp add: cycle_eval)
  from a b show ?thesis
    using locators_are_never_released [of example_runtime _ _
      "run example_runtime (lit ''B'') fresh_document"
      "[Submit (lit ''A''), Import_settles 1, Submit (lit ''B''), Import_settles 2]"]
    by blast
qed

text \<open>After a cycle that rendered, its object URL is still live.\<close>

theorem locator_live_after_cycle:
  "run example_runtime (lit ''export default 1'') fresh_document =
     Settled \<lparr>body = Root_div (Some (canonical_import @ lit ''export default 1'')),
       object_urls = 1, mount_attempts = 1, console_errors = []\<rparr> Fulfilled"
  by (simp add: cycle_eval)




end
